theory Spec2Isabelle
  imports Complex_Main "HOL-Library.Word" "HOL-Library.AList"
begin

section \<open>Attribute types and attribute values\<close>

text \<open>
  The wire-level values of the provider are the values of the plugin framework
  (\<^verbatim>\<open>attr.Type\<close>, \<^verbatim>\<open>attr.Value\<close>). Every value carries its state (null, unknown,
  known) beside its payload, as the framework's structs do. A Go map is an association
  list read through \<open>map_of\<close> and written through \<open>AList.update\<close>; a range loop over a
  map is a recursion over the list of its entries, whose keys are distinct.
\<close>

datatype attr_type =
    StringType | BoolType | Int64Type | NumberType | Float64Type
  | ListType attr_type | SetType attr_type | TupleType "attr_type list"
  | MapType attr_type | ObjectType "(string \<times> attr_type) list" | DynamicType

datatype value_state = ValueStateNull | ValueStateUnknown | ValueStateKnown

datatype attr_value =
    StringValue value_state string
  | Int64Value value_state int
  | BoolValue value_state bool
  | Float64Value value_state "64 word"
  | NumberValue value_state real
  | ListValue attr_type value_state "attr_value list"
  | SetValue attr_type value_state "attr_value list"
  | TupleValue "attr_type list" value_state "attr_value list"
  | MapValue attr_type value_state "(string \<times> attr_value) list"
  | ObjectValue "(string \<times> attr_type) list" value_state "(string \<times> attr_value) list"
  | DynamicValue value_state "attr_value option"

fun TypeEqual :: "attr_type \<Rightarrow> attr_type \<Rightarrow> bool" where
  "TypeEqual (ListType a) (ListType b) = TypeEqual a b"
| "TypeEqual (SetType a) (SetType b) = TypeEqual a b"
| "TypeEqual (MapType a) (MapType b) = TypeEqual a b"
| "TypeEqual (TupleType as) (TupleType bs) =
     list_all2 TypeEqual as bs"
| "TypeEqual (ObjectType as) (ObjectType bs) =
     (length as = length bs \<and>
      list_all (\<lambda>(k, a). case map_of bs k of None \<Rightarrow> False | Some b \<Rightarrow> TypeEqual a b) as)"
| "TypeEqual StringType b = (b = StringType)"
| "TypeEqual BoolType b = (b = BoolType)"
| "TypeEqual Int64Type b = (b = Int64Type)"
| "TypeEqual NumberType b = (b = NumberType)"
| "TypeEqual Float64Type b = (b = Float64Type)"
| "TypeEqual DynamicType b = (b = DynamicType)"
| "TypeEqual _ _ = False"

fun IsNull :: "attr_value \<Rightarrow> bool" where
  "IsNull (StringValue st _) = (st = ValueStateNull)"
| "IsNull (Int64Value st _) = (st = ValueStateNull)"
| "IsNull (BoolValue st _) = (st = ValueStateNull)"
| "IsNull (Float64Value st _) = (st = ValueStateNull)"
| "IsNull (NumberValue st _) = (st = ValueStateNull)"
| "IsNull (ListValue _ st _) = (st = ValueStateNull)"
| "IsNull (SetValue _ st _) = (st = ValueStateNull)"
| "IsNull (TupleValue _ st _) = (st = ValueStateNull)"
| "IsNull (MapValue _ st _) = (st = ValueStateNull)"
| "IsNull (ObjectValue _ st _) = (st = ValueStateNull)"
| "IsNull (DynamicValue st _) = (st = ValueStateNull)"

fun IsUnknown :: "attr_value \<Rightarrow> bool" where
  "IsUnknown (StringValue st _) = (st = ValueStateUnknown)"
| "IsUnknown (Int64Value st _) = (st = ValueStateUnknown)"
| "IsUnknown (BoolValue st _) = (st = ValueStateUnknown)"
| "IsUnknown (Float64Value st _) = (st = ValueStateUnknown)"
| "IsUnknown (NumberValue st _) = (st = ValueStateUnknown)"
| "IsUnknown (ListValue _ st _) = (st = ValueStateUnknown)"
| "IsUnknown (SetValue _ st _) = (st = ValueStateUnknown)"
| "IsUnknown (TupleValue _ st _) = (st = ValueStateUnknown)"
| "IsUnknown (MapValue _ st _) = (st = ValueStateUnknown)"
| "IsUnknown (ObjectValue _ st _) = (st = ValueStateUnknown)"
| "IsUnknown (DynamicValue st _) = (st = ValueStateUnknown)"

fun Type :: "attr_value \<Rightarrow> attr_type" where
  "Type (StringValue _ _) = StringType"
| "Type (Int64Value _ _) = Int64Type"
| "Type (BoolValue _ _) = BoolType"
| "Type (Float64Value _ _) = Float64Type"
| "Type (NumberValue _ _) = NumberType"
| "Type (ListValue elemType _ _) = ListType elemType"
| "Type (SetValue elemType _ _) = SetType elemType"
| "Type (TupleValue elemTypes _ _) = TupleType elemTypes"
| "Type (MapValue elemType _ _) = MapType elemType"
| "Type (ObjectValue attrTypes _ _) = ObjectType attrTypes"
| "Type (DynamicValue _ _) = DynamicType"

fun isObjectType :: "attr_type \<Rightarrow> bool" where
  "isObjectType (ObjectType _) = True" | "isObjectType _ = False"
fun isMapType :: "attr_type \<Rightarrow> bool" where
  "isMapType (MapType _) = True" | "isMapType _ = False"
fun isListType :: "attr_type \<Rightarrow> bool" where
  "isListType (ListType _) = True" | "isListType _ = False"
fun isSetType :: "attr_type \<Rightarrow> bool" where
  "isSetType (SetType _) = True" | "isSetType _ = False"

type_synonym attrs = "(string \<times> attr_value) list"

definition NewObjectValue :: "(string \<times> attr_type) list \<Rightarrow> attrs \<Rightarrow> attr_value" where
  "NewObjectValue attributeTypes attributes =
     (if list_all (\<lambda>(name, attributeType).
            case map_of attributes name of
              None \<Rightarrow> False
            | Some attribute \<Rightarrow> TypeEqual attributeType (Type attribute)) attributeTypes
         \<and> list_all (\<lambda>(name, _). map_of attributeTypes name \<noteq> None) attributes
      then ObjectValue attributeTypes ValueStateKnown attributes
      else ObjectValue attributeTypes ValueStateUnknown [])"

definition NewListValue :: "attr_type \<Rightarrow> attr_value list \<Rightarrow> attr_value" where
  "NewListValue elementType elements =
     (if list_all (\<lambda>element. TypeEqual elementType (Type element)) elements
      then ListValue elementType ValueStateKnown elements
      else ListValue elementType ValueStateUnknown [])"

definition NewSetValue :: "attr_type \<Rightarrow> attr_value list \<Rightarrow> attr_value" where
  "NewSetValue elementType elements =
     (if list_all (\<lambda>element. TypeEqual elementType (Type element)) elements
      then SetValue elementType ValueStateKnown elements
      else SetValue elementType ValueStateUnknown [])"

definition NewMapValue :: "attr_type \<Rightarrow> attrs \<Rightarrow> attr_value" where
  "NewMapValue elementType elements =
     (if list_all (\<lambda>(key, element). TypeEqual elementType (Type element)) elements
      then MapValue elementType ValueStateKnown elements
      else MapValue elementType ValueStateUnknown [])"

definition mergeSetAttribute :: "attrs \<Rightarrow> string \<Rightarrow> attr_value \<Rightarrow> attrs" where
  "mergeSetAttribute existingAttrs key planVal =
     (case planVal of
        SetValue elemType st planElems \<Rightarrow>
          if \<not> isObjectType elemType then AList.update key planVal existingAttrs
          else AList.update key
                 (NewSetValue elemType (filter (\<lambda>elem. \<not> (IsNull elem \<or> IsUnknown elem)) planElems))
                 existingAttrs
      | _ \<Rightarrow> AList.update key planVal existingAttrs)"

fun mergePlanAndStateMap :: "attrs \<Rightarrow> attrs \<Rightarrow> attrs"
and mergeObjectAttribute :: "attrs \<Rightarrow> string \<Rightarrow> attr_value \<Rightarrow> attrs"
and mergeMapAttribute :: "attrs \<Rightarrow> string \<Rightarrow> attr_value \<Rightarrow> attrs"
and mergeMapElements :: "attrs \<Rightarrow> attrs \<Rightarrow> attrs"
and mergeListAttribute :: "attrs \<Rightarrow> string \<Rightarrow> attr_value \<Rightarrow> attrs"
and mergeListElements :: "attr_value list \<Rightarrow> nat \<Rightarrow> attr_value list \<Rightarrow> attr_value list"
where
  "mergePlanAndStateMap existingAttrs [] = existingAttrs"
| "mergePlanAndStateMap existingAttrs ((key, planVal) # rest) =
     mergePlanAndStateMap
       (if IsNull planVal \<or> IsUnknown planVal then existingAttrs
        else if isObjectType (Type planVal) then mergeObjectAttribute existingAttrs key planVal
        else if isMapType (Type planVal) then mergeMapAttribute existingAttrs key planVal
        else if isListType (Type planVal) then mergeListAttribute existingAttrs key planVal
        else if isSetType (Type planVal) then mergeSetAttribute existingAttrs key planVal
        else AList.update key planVal existingAttrs)
       rest"
| "mergeObjectAttribute existingAttrs key planVal =
     AList.update key
       (case planVal of
          ObjectValue planTypes planState planAttributes \<Rightarrow>
            (case map_of existingAttrs key of
               None \<Rightarrow> planVal
             | Some existingVal \<Rightarrow>
                 (case existingVal of
                    ObjectValue existingTypes existingState existingAttributes \<Rightarrow>
                      NewObjectValue existingTypes
                        (mergePlanAndStateMap existingAttributes planAttributes)
                  | _ \<Rightarrow> planVal))
        | _ \<Rightarrow> planVal)
       existingAttrs"
| "mergeMapAttribute existingAttrs key planVal =
     AList.update key
       (case planVal of
          MapValue elemType planState planElements \<Rightarrow>
            (case map_of existingAttrs key of
               None \<Rightarrow> planVal
             | Some existingVal \<Rightarrow>
                 (case existingVal of
                    MapValue existingElemType existingState existingElements \<Rightarrow>
                      if \<not> isObjectType elemType then planVal
                      else NewMapValue elemType (mergeMapElements existingElements planElements)
                  | _ \<Rightarrow> planVal))
        | _ \<Rightarrow> planVal)
       existingAttrs"
| "mergeMapElements mergedMapValues [] = mergedMapValues"
| "mergeMapElements mergedMapValues ((k, planMapVal) # rest) =
     mergeMapElements
       (if IsNull planMapVal \<or> IsUnknown planMapVal then mergedMapValues
        else AList.update k
          (case map_of mergedMapValues k of
             None \<Rightarrow> planMapVal
           | Some existingMapVal \<Rightarrow>
               (case planMapVal of
                  ObjectValue planTypes planState planAttributes \<Rightarrow>
                    (case existingMapVal of
                       ObjectValue existingTypes existingState existingAttributes \<Rightarrow>
                         NewObjectValue existingTypes
                           (mergePlanAndStateMap existingAttributes planAttributes)
                     | _ \<Rightarrow> planMapVal)
                | _ \<Rightarrow> planMapVal))
          mergedMapValues)
       rest"
| "mergeListAttribute existingAttrs key planVal =
     AList.update key
       (case planVal of
          ListValue elemType planState planElems \<Rightarrow>
            if \<not> isObjectType elemType then planVal
            else (case map_of existingAttrs key of
               None \<Rightarrow> planVal
             | Some existingVal \<Rightarrow>
                 (case existingVal of
                    ListValue existingElemType existingState existingElems \<Rightarrow>
                      if existingState = ValueStateNull \<or> existingState = ValueStateUnknown
                      then planVal
                      else NewListValue elemType (mergeListElements existingElems 0 planElems)
                  | _ \<Rightarrow> planVal))
        | _ \<Rightarrow> planVal)
       existingAttrs"
| "mergeListElements existingElems i [] = []"
| "mergeListElements existingElems i (planElem # rest) =
     (if IsNull planElem \<or> IsUnknown planElem
      then (if i < length existingElems then existingElems ! i else planElem)
      else (case planElem of
              ObjectValue planTypes planState planAttributes \<Rightarrow>
                if i \<ge> length existingElems then planElem
                else (case existingElems ! i of
                        ObjectValue existingTypes existingState existingAttributes \<Rightarrow>
                          if existingState = ValueStateNull \<or> existingState = ValueStateUnknown
                          then planElem
                          else NewObjectValue existingTypes
                                 (mergePlanAndStateMap existingAttributes planAttributes)
                      | _ \<Rightarrow> planElem)
            | _ \<Rightarrow> planElem))
     # mergeListElements existingElems (Suc i) rest"

section \<open>The immutability guard\<close>



text \<open>
  A plan modifier reads a request and adds diagnostics to its response; the request's
  \<open>State.Raw.IsNull()\<close> and \<open>Plan.Raw.IsNull()\<close> are the two flags of the record.
  \<open>FormatInt\<close> and \<open>FormatBool\<close> are what \<^verbatim>\<open>%v\<close> prints for an int64 and a bool.
\<close>

datatype severity = SeverityError | SeverityWarning

record diagnostic =
  Severity :: severity
  AttributePath :: string
  Summary :: string
  Detail :: string


definition HasError :: "diagnostic list \<Rightarrow> bool" where
  "HasError diags = list_ex (\<lambda>d. Severity d = SeverityError) diags"

















section \<open>Go types and values, as reflection sees them\<close>

text \<open>
  A record type is a \<open>TStruct\<close> with its fields in declaration order; a field carries its
  name, its package path (empty for an exported field), its tags and its type. A value
  carries what \<^verbatim>\<open>reflect\<close> can ask of it: its kind, its type and its content. A nil
  interface is \<open>VInterface None\<close>. A failure of the runtime (a reflection panic) and an
  error return are both values of \<open>error\<close>. A float is its IEEE-754 bit pattern.
\<close>

datatype kind =
    Invalid | Bool | IntKind | Int8 | Int16 | Int32 | Int64
  | Uint | Uint8 | Uint16 | Uint32 | Uint64 | Uintptr
  | Float32 | Float64 | Complex64 | Complex128
  | Array | Chan | Func | Interface | Map | Pointer | Slice | String | Struct | UnsafePointer

datatype go_type =
    TBasic kind
  | TPointer go_type
  | TSlice go_type
  | TArray nat go_type
  | TMap go_type go_type
  | TChan go_type
  | TFunc
  | TInterface
  | TStruct "struct_field list"
and struct_field =
    StructField (Name: string) (PkgPath: string) (Anonymous: bool)
                (Tag: "(string \<times> string) list") (FieldType: go_type)

datatype go_value =
    VBool bool
  | VInt kind int
  | VFloat kind "64 word"
  | VString string
  | VPointer go_type "go_value option"
  | VSlice go_type "go_value list option"
  | VArray go_type "go_value list"
  | VMap go_type go_type "(go_value \<times> go_value) list option"
  | VChan go_type "nat option"
  | VFunc "nat option"
  | VInterface "go_value option"
  | VStruct "(struct_field \<times> go_value) list"

datatype error = Error string | Wrapped string error | Panic string

fun KindOfType :: "go_type \<Rightarrow> kind" where
  "KindOfType (TBasic k) = k"
| "KindOfType (TPointer _) = Pointer"
| "KindOfType (TSlice _) = Slice"
| "KindOfType (TArray _ _) = Array"
| "KindOfType (TMap _ _) = Map"
| "KindOfType (TChan _) = Chan"
| "KindOfType TFunc = Func"
| "KindOfType TInterface = Interface"
| "KindOfType (TStruct _) = Struct"

fun TypeOf :: "go_value \<Rightarrow> go_type" where
  "TypeOf (VBool _) = TBasic Bool"
| "TypeOf (VInt k _) = TBasic k"
| "TypeOf (VFloat k _) = TBasic k"
| "TypeOf (VString _) = TBasic String"
| "TypeOf (VPointer t _) = TPointer t"
| "TypeOf (VSlice t _) = TSlice t"
| "TypeOf (VArray t xs) = TArray (length xs) t"
| "TypeOf (VMap kt vt _) = TMap kt vt"
| "TypeOf (VChan t _) = TChan t"
| "TypeOf (VFunc _) = TFunc"
| "TypeOf (VInterface _) = TInterface"
| "TypeOf (VStruct fs) = TStruct (map fst fs)"

definition Kind :: "go_value \<Rightarrow> kind" where
  "Kind v = KindOfType (TypeOf v)"

text \<open>\<open>Tag.Get\<close>, and the part of a tag value before its first comma.\<close>

definition TagGet :: "(string \<times> string) list \<Rightarrow> string \<Rightarrow> string" where
  "TagGet tag k = (case map_of tag k of None \<Rightarrow> [] | Some v \<Rightarrow> v)"

definition beforeComma :: "string \<Rightarrow> string" where
  "beforeComma s = takeWhile (\<lambda>c. c \<noteq> CHR '','') s"

text \<open>
  \<open>reflect.Value.IsZero\<close>: false, zero, the empty string, nil, and an array or a struct
  whose parts are all zero. Both float zeros are zero.
\<close>

fun IsZero :: "go_value \<Rightarrow> bool" where
  "IsZero (VBool b) = (\<not> b)"
| "IsZero (VInt _ i) = (i = 0)"
| "IsZero (VFloat _ w) = (w = 0 \<or> w = push_bit 63 1)"
| "IsZero (VString s) = (s = [])"
| "IsZero (VPointer _ p) = (p = None)"
| "IsZero (VSlice _ xs) = (xs = None)"
| "IsZero (VArray _ xs) = list_all IsZero xs"
| "IsZero (VMap _ _ m) = (m = None)"
| "IsZero (VChan _ c) = (c = None)"
| "IsZero (VFunc f) = (f = None)"
| "IsZero (VInterface i) = (i = None)"
| "IsZero (VStruct fs) = list_all (\<lambda>(f, v). IsZero v) fs"

section \<open>Decode: from an object to the intermediate mapping\<close>

text \<open>
  A prototype is an interface value of which only the type is read: \<open>None\<close> is the nil
  interface. \<open>reflect.New(t).Interface()\<close> is a prototype of type \<open>TPointer t\<close>.
\<close>

function findFieldByName :: "go_type option \<Rightarrow> string \<Rightarrow> struct_field option"
  and findFieldByNameLoop :: "struct_field list \<Rightarrow> string \<Rightarrow> struct_field option"
where
  "findFieldByName schema name =
     (case schema of
        None \<Rightarrow> None
      | Some schemaType \<Rightarrow>
          if name = [] then None
          else (case (case schemaType of TPointer t \<Rightarrow> t | _ \<Rightarrow> schemaType) of
                  TStruct flds \<Rightarrow> findFieldByNameLoop flds name
                | _ \<Rightarrow> None))"
| "findFieldByNameLoop [] name = None"
| "findFieldByNameLoop (field # rest) name =
     (if PkgPath field \<noteq> [] \<and> \<not> Anonymous field then findFieldByNameLoop rest name
      else if beforeComma
                (if TagGet (Tag field) ''mapstructure'' \<noteq> [] then TagGet (Tag field) ''mapstructure''
                 else if TagGet (Tag field) ''json'' \<noteq> [] then TagGet (Tag field) ''json''
                 else Name field) = name
        then Some field
      else if TagGet (Tag field) ''mapstructure'' = '',squash''
        then findFieldByName (Some (TPointer (FieldType field))) name
      else findFieldByNameLoop rest name)"
  by pat_completeness auto
termination
proof -
  have sz: "size (FieldType f) < size f + n" for f n
    by (cases f) simp
  show ?thesis
    by (relation "measure (\<lambda>x. case x of
          Inl (schema, name) \<Rightarrow> (case schema of None \<Rightarrow> 0 | Some t \<Rightarrow> size t)
        | Inr (flds, name) \<Rightarrow> size_list size flds)")
       (auto split: go_type.splits simp: sz)
qed

declare findFieldByName.simps [simp del]

text \<open>
  The element prototypes that \<open>attrToInterface\<close> derives from the field of a container
  attribute, and the last step of the loop of \<open>objectToMap\<close>: where the decoded value
  of an attribute is stored, wrapped, unwrapped or left out.
\<close>

definition mapElemPrototype :: "struct_field option \<Rightarrow> go_type option" where
  "mapElemPrototype actualField =
     (case actualField of
        None \<Rightarrow> None
      | Some f \<Rightarrow> (case FieldType f of TMap kt vt \<Rightarrow> Some (TPointer vt) | _ \<Rightarrow> None))"

fun derefAll :: "go_type \<Rightarrow> go_type" where
  "derefAll (TPointer t) = derefAll t"
| "derefAll t = t"

definition listElemPrototype :: "struct_field option \<Rightarrow> go_type option" where
  "listElemPrototype actualField =
     (case actualField of
        None \<Rightarrow> None
      | Some f \<Rightarrow>
          (case derefAll (FieldType f) of
             TSlice elemType \<Rightarrow>
               (case elemType of TPointer t \<Rightarrow> Some (TPointer t) | _ \<Rightarrow> Some (TPointer elemType))
           | TArray n elemType \<Rightarrow>
               (case elemType of TPointer t \<Rightarrow> Some (TPointer t) | _ \<Rightarrow> Some (TPointer elemType))
           | _ \<Rightarrow> None))"

definition nestedPrototype :: "struct_field option \<Rightarrow> go_type option \<Rightarrow> go_type option" where
  "nestedPrototype actualField prototype =
     (case actualField of
        None \<Rightarrow> prototype
      | Some f \<Rightarrow> Some (TPointer (FieldType f)))"

definition objectToMapStore ::
  "go_type option \<Rightarrow> string \<Rightarrow> go_value \<Rightarrow> (string \<times> go_value) list \<Rightarrow> (string \<times> go_value) list" where
  "objectToMapStore prototype key goVal result =
     (if goVal = VInterface None then result
      else if (case findFieldByName prototype key of
                 None \<Rightarrow> False
               | Some actualField \<Rightarrow> KindOfType (FieldType actualField) = Pointer)
      then (if Kind goVal \<noteq> Pointer
            then AList.update key (VPointer (TypeOf goVal) (Some goVal)) result
            else AList.update key goVal result)
      else (case goVal of
              VPointer t p \<Rightarrow> (case p of None \<Rightarrow> result | Some x \<Rightarrow> AList.update key x result)
            | _ \<Rightarrow> if Kind goVal = Bool \<or> \<not> IsZero goVal then AList.update key goVal result
                   else result))"

function attrToInterface ::
    "(string \<Rightarrow> error + go_value) \<Rightarrow> string \<Rightarrow> attr_value \<Rightarrow> go_type option \<Rightarrow> error + go_value"
  and objectToMap ::
    "(string \<Rightarrow> error + go_value) \<Rightarrow> attr_value \<Rightarrow> go_type option
      \<Rightarrow> error + (string \<times> go_value) list"
  and objectToMapLoop ::
    "(string \<Rightarrow> error + go_value) \<Rightarrow> (string \<times> attr_value) list \<Rightarrow> go_type option
      \<Rightarrow> (string \<times> go_value) list \<Rightarrow> error + (string \<times> go_value) list"
  and attrToInterfaceMap ::
    "(string \<Rightarrow> error + go_value) \<Rightarrow> (string \<times> attr_value) list \<Rightarrow> go_type option
      \<Rightarrow> error + (go_value \<times> go_value) list"
  and attrToInterfaceList ::
    "(string \<Rightarrow> error + go_value) \<Rightarrow> attr_value list \<Rightarrow> go_type option
      \<Rightarrow> error + go_value list"
where
  "attrToInterface unmarshal key val prototype =
     (if IsNull val \<or> IsUnknown val then Inr (VInterface None)
      else (case val of
        StringValue s v \<Rightarrow> Inr (VString v)
      | Int64Value s v \<Rightarrow> Inr (VInt Int64 v)
      | BoolValue s v \<Rightarrow> Inr (VBool v)
      | Float64Value s v \<Rightarrow> Inr (VFloat Float64 v)
      | ObjectValue ts s attributes \<Rightarrow>
          (case objectToMap unmarshal (ObjectValue ts s attributes)
                  (nestedPrototype (findFieldByName prototype key) prototype) of
             Inl err \<Rightarrow> Inl err
           | Inr m \<Rightarrow> Inr (VMap (TBasic String) TInterface (Some (map (\<lambda>(k, v). (VString k, v)) m))))
      | DynamicValue s underlying \<Rightarrow>
          (case underlying of
             None \<Rightarrow> Inl (Panic ''nil pointer dereference'')
           | Some u \<Rightarrow>
               (case u of
                  StringValue s' str \<Rightarrow>
                    (case unmarshal str of
                       Inl err \<Rightarrow> Inl (Wrapped ''failed to unmarshal dynamic JSON value'' err)
                     | Inr result \<Rightarrow> Inr result)
                | _ \<Rightarrow> attrToInterface unmarshal key u
                         (nestedPrototype (findFieldByName prototype key) prototype)))
      | MapValue t s elements \<Rightarrow>
          (case attrToInterfaceMap unmarshal elements
                  (mapElemPrototype (findFieldByName prototype key)) of
             Inl err \<Rightarrow> Inl err
           | Inr m \<Rightarrow> Inr (VMap (TBasic String) TInterface (Some m)))
      | ListValue t s elems \<Rightarrow>
          (case attrToInterfaceList unmarshal elems
                  (listElemPrototype (findFieldByName prototype key)) of
             Inl err \<Rightarrow> Inl err
           | Inr list \<Rightarrow> Inr (VSlice TInterface (Some list)))
      | SetValue t s elems \<Rightarrow>
          (case attrToInterfaceList unmarshal elems
                  (listElemPrototype (findFieldByName prototype key)) of
             Inl err \<Rightarrow> Inl err
           | Inr list \<Rightarrow> Inr (VSlice TInterface (Some list)))
      | TupleValue ts s elems \<Rightarrow>
          (case attrToInterfaceList unmarshal elems
                  (listElemPrototype (findFieldByName prototype key)) of
             Inl err \<Rightarrow> Inl err
           | Inr list \<Rightarrow> Inr (VSlice TInterface (Some list)))
      | NumberValue s v \<Rightarrow> Inl (Error ''unsupported attribute type'')))"
| "objectToMap unmarshal obj prototype =
     (if IsNull obj \<or> IsUnknown obj then Inl (Error ''object is null or unknown'')
      else (case obj of
              ObjectValue ts s attributes \<Rightarrow> objectToMapLoop unmarshal attributes prototype []
            | _ \<Rightarrow> Inl (Panic ''not an object'')))"
| "objectToMapLoop unmarshal [] prototype result = Inr result"
| "objectToMapLoop unmarshal ((key, val) # rest) prototype result =
     (case (if IsNull val then Inr (AList.update key (VInterface None) result)
            else if IsUnknown val then Inr result
            else (case attrToInterface unmarshal key val prototype of
                    Inl err \<Rightarrow> Inl (Wrapped (''error converting attribute '' @ key) err)
                  | Inr goVal \<Rightarrow> Inr (objectToMapStore prototype key goVal result))) of
        Inl err \<Rightarrow> Inl err
      | Inr result' \<Rightarrow> objectToMapLoop unmarshal rest prototype result')"
| "attrToInterfaceMap unmarshal [] elemPrototype = Inr []"
| "attrToInterfaceMap unmarshal ((k, elem) # rest) elemPrototype =
     (case attrToInterface unmarshal k elem elemPrototype of
        Inl err \<Rightarrow> Inl err
      | Inr converted \<Rightarrow>
          (case attrToInterfaceMap unmarshal rest elemPrototype of
             Inl err \<Rightarrow> Inl err
           | Inr m \<Rightarrow> Inr ((VString k, converted) # m)))"
| "attrToInterfaceList unmarshal [] elemPrototype = Inr []"
| "attrToInterfaceList unmarshal (elem # rest) elemPrototype =
     (case attrToInterface unmarshal [] elem elemPrototype of
        Inl err \<Rightarrow> Inl err
      | Inr converted \<Rightarrow>
          (case attrToInterfaceList unmarshal rest elemPrototype of
             Inl err \<Rightarrow> Inl err
           | Inr list \<Rightarrow> Inr (converted # list)))"
  by pat_completeness auto
termination
  by (relation "measure (\<lambda>x. case x of
        Inl (Inl (u, key, val, p)) \<Rightarrow> 2 * size val + 1
      | Inl (Inr (u, obj, p)) \<Rightarrow> 2 * size obj
      | Inr (Inl (u, attrs, p, r)) \<Rightarrow> 2 * size_list (size_prod (\<lambda>x. 0) size) attrs + 1
      | Inr (Inr (Inl (u, elems, p))) \<Rightarrow> 2 * size_list (size_prod (\<lambda>x. 0) size) elems + 1
      | Inr (Inr (Inr (u, elems, p))) \<Rightarrow> 2 * size_list size elems + 1)")
     auto

declare attrToInterface.simps [simp del] objectToMap.simps [simp del]

section \<open>Flattened field lists and encode\<close>






text \<open>
  \<open>InterfaceOf\<close> is \<open>reflect.Value.Interface()\<close>: the content of an interface-typed slot,
  any other value as it is. \<open>ReflectString\<close> is \<open>reflect.Value.String()\<close>, which does not
  panic on a value that is not a string. A function that logs returns its warnings beside
  its result; \<open>collect\<close> runs a loop body over a list and stops at the first error.
\<close>

fun InterfaceOf :: "go_value \<Rightarrow> go_value" where
  "InterfaceOf (VInterface (Some v)) = v"
| "InterfaceOf v = v"






definition isKnown :: "attr_value \<Rightarrow> bool" where
  "isKnown v = (\<not> IsNull v \<and> \<not> IsUnknown v)"
















section \<open>Schema derivation\<close>







definition simpleTypes :: "kind list" where
  "simpleTypes = [String, Bool, IntKind, Int8, Int16, Int32, Int64,
                  Uint, Uint8, Uint16, Uint32, Uint64, Float32, Float64]"






























section \<open>Reconcile\<close>


fun IsNil :: "go_value \<Rightarrow> bool" where
  "IsNil (VPointer _ p) = (p = None)"
| "IsNil (VSlice _ xs) = (xs = None)"
| "IsNil (VMap _ _ m) = (m = None)"
| "IsNil (VChan _ c) = (c = None)"
| "IsNil (VFunc f) = (f = None)"
| "IsNil (VInterface i) = (i = None)"
| "IsNil _ = False"

definition Addr :: "go_value \<Rightarrow> go_value" where
  "Addr v = VPointer (TypeOf v) (Some v)"

definition ReflectSet :: "go_value \<Rightarrow> go_value \<Rightarrow> error + go_value" where
  "ReflectSet target x =
     (if TypeOf x = TypeOf target then Inr x
      else if TypeOf target = TInterface then Inr (VInterface (Some x))
      else Inl (Panic ''reflect.Set: value is not assignable to the type of the target''))"

text \<open>
  \<open>reflect.DeepEqual\<close>, for a first value of a simple kind, which is the only use
  reconcile makes of it: the types are the same and the
  contents are equal, floats as floats (no NaN equals anything, the two zeros are equal).
\<close>

definition isNaN :: "64 word \<Rightarrow> bool" where
  "isNaN w = (take_bit 11 (drop_bit 52 w) = 2047 \<and> take_bit 52 w \<noteq> 0)"

definition floatEqual :: "64 word \<Rightarrow> 64 word \<Rightarrow> bool" where
  "floatEqual a b =
     (\<not> isNaN a \<and> \<not> isNaN b \<and> (a = b \<or> (take_bit 63 a = 0 \<and> take_bit 63 b = 0)))"

fun DeepEqual :: "go_value \<Rightarrow> go_value \<Rightarrow> bool" where
  "DeepEqual (VFloat k a) (VFloat k' b) = (k = k' \<and> floatEqual a b)"
| "DeepEqual x y = (x = y)"

text \<open>
  \<open>FieldByName\<close> of \<^verbatim>\<open>reflect\<close>: a field of the struct itself with that name, or else a
  field promoted from embedded structs, at the smallest depth where the name occurs, and
  only if it occurs once there. The answer is the index sequence of the field, the field
  and its value. On a value that is not a struct, and when the way to a promoted field
  goes through a nil pointer, \<^verbatim>\<open>reflect\<close> panics.
\<close>

definition embeddedFields :: "struct_field \<Rightarrow> struct_field list" where
  "embeddedFields f =
     (if Anonymous f
      then (case FieldType f of
              TStruct flds \<Rightarrow> flds
            | TPointer (TStruct flds) \<Rightarrow> flds
            | _ \<Rightarrow> [])
      else [])"

fun fieldsAt :: "nat \<Rightarrow> string \<Rightarrow> struct_field list \<Rightarrow> nat list list" where
  "fieldsAt 0 name flds = map (\<lambda>i. [i]) (filter (\<lambda>i. Name (flds ! i) = name) [0..<length flds])"
| "fieldsAt (Suc d) name flds =
     concat (map (\<lambda>i. map ((#) i) (fieldsAt d name (embeddedFields (flds ! i)))) [0..<length flds])"

definition TypeFieldByName :: "struct_field list \<Rightarrow> string \<Rightarrow> nat list option" where
  "TypeFieldByName flds name =
     (case find (\<lambda>i. Name (flds ! i) = name) [0..<length flds] of
        Some i \<Rightarrow> Some [i]
      | None \<Rightarrow>
          (case filter (\<lambda>found. found \<noteq> [])
                  (map (\<lambda>d. fieldsAt d name flds) [1..<Suc (size_list size flds)]) of
             [] \<Rightarrow> None
           | found # _ \<Rightarrow> (case found of [index] \<Rightarrow> Some index | _ \<Rightarrow> None)))"

definition Field :: "go_value \<Rightarrow> nat \<Rightarrow> error + (struct_field \<times> go_value)" where
  "Field v i =
     (case v of
        VStruct fs \<Rightarrow>
          if i < length fs then Inr (fs ! i)
          else Inl (Panic ''reflect: Field index out of range'')
      | _ \<Rightarrow> Inl (Panic ''reflect: call of reflect.Value.Field on non-struct Value''))"

fun FieldByIndex :: "struct_field \<times> go_value \<Rightarrow> nat list \<Rightarrow> error + (struct_field \<times> go_value)" where
  "FieldByIndex fv [] = Inr fv"
| "FieldByIndex fv (i # rest) =
     (case snd fv of
        VPointer (TStruct flds) None \<Rightarrow>
          Inl (Panic ''reflect: indirection through nil pointer to embedded struct'')
      | VPointer (TStruct flds) (Some v) \<Rightarrow>
          (case Field v i of Inl err \<Rightarrow> Inl err | Inr fv' \<Rightarrow> FieldByIndex fv' rest)
      | v \<Rightarrow> (case Field v i of Inl err \<Rightarrow> Inl err | Inr fv' \<Rightarrow> FieldByIndex fv' rest))"

definition FieldByName ::
  "go_value \<Rightarrow> string \<Rightarrow> error + (nat list \<times> struct_field \<times> go_value) option" where
  "FieldByName v name =
     (case v of
        VStruct fs \<Rightarrow>
          (case TypeFieldByName (map fst fs) name of
             None \<Rightarrow> Inr None
           | Some [] \<Rightarrow> Inr None
           | Some (i # rest) \<Rightarrow>
               (case Field v i of
                  Inl err \<Rightarrow> Inl err
                | Inr fv \<Rightarrow>
                    (case FieldByIndex fv rest of
                       Inl err \<Rightarrow> Inl err
                     | Inr (f, x) \<Rightarrow> Inr (Some (i # rest, f, x)))))
      | _ \<Rightarrow> Inl (Panic ''reflect: call of reflect.Value.FieldByName on non-struct Value''))"

text \<open>Storing \<open>x\<close> in the field that an index sequence names.\<close>

fun SetByIndex :: "go_value \<Rightarrow> nat list \<Rightarrow> go_value \<Rightarrow> go_value" where
  "SetByIndex v [] x = x"
| "SetByIndex v (i # rest) x =
     (case v of
        VStruct fs \<Rightarrow> VStruct (fs[i := (fst (fs ! i), SetByIndex (snd (fs ! i)) rest x)])
      | VPointer t (Some (VStruct fs)) \<Rightarrow>
          VPointer t (Some (VStruct (fs[i := (fst (fs ! i), SetByIndex (snd (fs ! i)) rest x)])))
      | _ \<Rightarrow> v)"

text \<open>
  \<open>setTargetValueFromPlanAndState planVal canAddr stateVal target\<close>: \<open>canAddr\<close> says
  whether the plan value is addressable, \<open>stateVal\<close> is \<open>None\<close> for the invalid value
  (the state has no such field), and \<open>target\<close> is what the target holds; the result is
  what the target holds afterwards. The first two equations are the loop that follows
  the pointers of the plan value.
\<close>

definition setValueOrPointer :: "go_value \<Rightarrow> go_value \<Rightarrow> error + go_value" where
  "setValueOrPointer target planVal =
     (if KindOfType (TypeOf target) = Pointer \<and> Kind planVal \<noteq> Pointer
      then ReflectSet target (Addr planVal)
      else ReflectSet target planVal)"

definition setWithoutState :: "go_value \<Rightarrow> bool \<Rightarrow> go_value \<Rightarrow> error + go_value" where
  "setWithoutState planVal canAddr target =
     (if KindOfType (TypeOf target) = Pointer \<and> Kind planVal \<noteq> Pointer \<and> canAddr
      then ReflectSet target (Addr planVal)
      else ReflectSet target planVal)"

definition targetNonPtr :: "go_value \<Rightarrow> go_value option" where
  "targetNonPtr target =
     (if KindOfType (TypeOf target) = Pointer
      then (case target of VPointer t p \<Rightarrow> p | _ \<Rightarrow> None)
      else Some target)"

definition setTargetNonPtr :: "go_value \<Rightarrow> go_value \<Rightarrow> go_value" where
  "setTargetNonPtr target v =
     (case target of VPointer t p \<Rightarrow> VPointer t (Some v) | _ \<Rightarrow> v)"

fun setTargetValueFromPlanAndState ::
    "go_value \<Rightarrow> bool \<Rightarrow> go_value option \<Rightarrow> go_value \<Rightarrow> error + go_value"
  and setTargetFields ::
    "(struct_field \<times> go_value) list \<Rightarrow> bool \<Rightarrow> go_value \<Rightarrow> go_value \<Rightarrow> error + go_value"
where
  "setTargetValueFromPlanAndState (VPointer t None) canAddr stateVal target = Inr target"
| "setTargetValueFromPlanAndState (VPointer t (Some v)) canAddr stateVal target =
     setTargetValueFromPlanAndState v True stateVal target"
| "setTargetValueFromPlanAndState (VStruct planFields) canAddr stateVal target =
     (case stateVal of
        None \<Rightarrow> setWithoutState (VStruct planFields) canAddr target
      | Some sv \<Rightarrow>
          if IsZero sv then setValueOrPointer target (VStruct planFields)
          else setTargetFields planFields canAddr
                 (case sv of VPointer t (Some s) \<Rightarrow> s | _ \<Rightarrow> sv) target)"
| "setTargetValueFromPlanAndState planVal canAddr stateVal target =
     (case stateVal of
        None \<Rightarrow> setWithoutState planVal canAddr target
      | Some sv \<Rightarrow>
          if Kind planVal \<in> set simpleTypes
          then (if Kind planVal = Bool then setValueOrPointer target planVal
                else if \<not> IsZero planVal \<and> (IsZero sv \<or> \<not> DeepEqual (InterfaceOf planVal) (InterfaceOf sv))
                  then setValueOrPointer target planVal
                else Inr target)
          else if Kind planVal \<in> {Slice, Map, Interface, Chan}
          then (if \<not> IsNil planVal then setValueOrPointer target planVal else Inr target)
          else Inr target)"
| "setTargetFields [] canAddr stateValNonPtr target = Inr target"
| "setTargetFields ((field, planField) # rest) canAddr stateValNonPtr target =
     (if PkgPath field \<noteq> [] then setTargetFields rest canAddr stateValNonPtr target
      else (case FieldByName stateValNonPtr (Name field) of
              Inl err \<Rightarrow> Inl err
            | Inr stateField \<Rightarrow>
                (case targetNonPtr target of
                   None \<Rightarrow> Inl (Panic ''reflect: call of reflect.Value.FieldByName on zero Value'')
                 | Some tv \<Rightarrow>
                     (case FieldByName tv (Name field) of
                        Inl err \<Rightarrow> Inl err
                      | Inr None \<Rightarrow> setTargetFields rest canAddr stateValNonPtr target
                      | Inr (Some (index, targetField, held)) \<Rightarrow>
                          if PkgPath targetField \<noteq> []
                          then setTargetFields rest canAddr stateValNonPtr target
                          else (case setTargetValueFromPlanAndState planField canAddr
                                       (map_option (\<lambda>(i, f, s). s) stateField) held of
                                  Inl err \<Rightarrow> Inl err
                                | Inr v \<Rightarrow>
                                    setTargetFields rest canAddr stateValNonPtr
                                      (setTargetNonPtr target (SetByIndex tv index v)))))))"







section \<open>Deep copy\<close>

text \<open>
  \<open>deepCopy\<close> is about storage, so its values say where they are stored: a pointer
  carries the address of the variable it points to, a slice the address of its array
  (and its capacity), a map the address of the map itself. Two values share storage when
  an address occurs in both. Channels and functions are named by a number and have no
  storage of this kind. Values are finite trees: a value that reaches itself through its
  own pointers has no representation here. \<open>valueOf\<close> forgets the addresses.
\<close>

datatype ref_value =
    RBool bool
  | RInt kind int
  | RFloat kind "64 word"
  | RString string
  | RPointer go_type "(nat \<times> ref_value) option"
  | RSlice go_type "(nat \<times> nat \<times> ref_value list) option"
  | RArray go_type "ref_value list"
  | RMap go_type go_type "(nat \<times> (ref_value \<times> ref_value) list) option"
  | RChan go_type "nat option"
  | RFunc "nat option"
  | RInterface "ref_value option"
  | RStruct "(struct_field \<times> ref_value) list"



text \<open>
  \<open>deepCopy n v\<close>: the addresses from \<open>n\<close> on are free, and every allocation
  (\<^verbatim>\<open>reflect.New\<close>, \<^verbatim>\<open>MakeSlice\<close>, \<^verbatim>\<open>MakeMapWithSize\<close>) takes the next one; the result is the
  copy and the next free address. A field of the new struct that cannot be set, which is
  an unexported one, is skipped and keeps the zero value of its type. The entries of a
  map are copied in the order of the list, the value before the key, and stored with
  \<^verbatim>\<open>SetMapIndex\<close>. Every value here is a valid one; scalars, channels and functions are
  returned as they are.
\<close>

fun ZeroRef :: "go_type \<Rightarrow> ref_value"
  and ZeroRefFields :: "struct_field list \<Rightarrow> (struct_field \<times> ref_value) list"
where
  "ZeroRef (TBasic k) =
     (if k = Bool then RBool False
      else if k = String then RString []
      else if k = Float32 \<or> k = Float64 then RFloat k 0
      else RInt k 0)"
| "ZeroRef (TPointer t) = RPointer t None"
| "ZeroRef (TSlice t) = RSlice t None"
| "ZeroRef (TArray n t) = RArray t (replicate n (ZeroRef t))"
| "ZeroRef (TMap kt vt) = RMap kt vt None"
| "ZeroRef (TChan t) = RChan t None"
| "ZeroRef TFunc = RFunc None"
| "ZeroRef TInterface = RInterface None"
| "ZeroRef (TStruct flds) = RStruct (ZeroRefFields flds)"
| "ZeroRefFields [] = []"
| "ZeroRefFields (StructField n p a tg t # rest) = (StructField n p a tg t, ZeroRef t) # ZeroRefFields rest"

function (sequential) deepCopy :: "nat \<Rightarrow> ref_value \<Rightarrow> ref_value \<times> nat"
  and deepCopyElems :: "nat \<Rightarrow> ref_value list \<Rightarrow> ref_value list \<times> nat"
  and deepCopyEntries ::
    "nat \<Rightarrow> (ref_value \<times> ref_value) list \<Rightarrow> (ref_value \<times> ref_value) list
      \<Rightarrow> (ref_value \<times> ref_value) list \<times> nat"
  and deepCopyFields ::
    "nat \<Rightarrow> (struct_field \<times> ref_value) list \<Rightarrow> (struct_field \<times> ref_value) list \<times> nat"
where
  "deepCopy n (RPointer t None) = (RPointer t None, n)"
| "deepCopy n (RPointer t (Some (a, x))) =
     (case deepCopy n x of (elemCopy, n') \<Rightarrow> (RPointer t (Some (n', elemCopy)), Suc n'))"
| "deepCopy n (RInterface None) = (RInterface None, n)"
| "deepCopy n (RInterface (Some x)) =
     (case deepCopy n x of (innerCopy, n') \<Rightarrow> (RInterface (Some innerCopy), n'))"
| "deepCopy n (RSlice t None) = (RSlice t None, n)"
| "deepCopy n (RSlice t (Some (a, c, xs))) =
     (case deepCopyElems (Suc n) xs of (cpy, n') \<Rightarrow> (RSlice t (Some (n, c, cpy)), n'))"
| "deepCopy n (RArray t xs) =
     (case deepCopyElems n xs of (cpy, n') \<Rightarrow> (RArray t cpy, n'))"
| "deepCopy n (RMap kt vt None) = (RMap kt vt None, n)"
| "deepCopy n (RMap kt vt (Some (a, entries))) =
     (case deepCopyEntries (Suc n) entries [] of (cpy, n') \<Rightarrow> (RMap kt vt (Some (n, cpy)), n'))"
| "deepCopy n (RStruct fs) =
     (case deepCopyFields n fs of (cpy, n') \<Rightarrow> (RStruct cpy, n'))"
| "deepCopy n v = (v, n)"
| "deepCopyElems n [] = ([], n)"
| "deepCopyElems n (x # xs) =
     (case deepCopy n x of (x', n1) \<Rightarrow>
        (case deepCopyElems n1 xs of (cpy, n2) \<Rightarrow> (x' # cpy, n2)))"
| "deepCopyEntries n [] cpy = (cpy, n)"
| "deepCopyEntries n ((key, val) # rest) cpy =
     (case deepCopy n val of (valCopy, n1) \<Rightarrow>
        (case deepCopy n1 key of (keyCopy, n2) \<Rightarrow>
           deepCopyEntries n2 rest (AList.update keyCopy valCopy cpy)))"
| "deepCopyFields n [] = ([], n)"
| "deepCopyFields n ((f, x) # rest) =
     (if PkgPath f \<noteq> []
      then (case deepCopyFields n rest of (cpy, n') \<Rightarrow> ((f, ZeroRef (FieldType f)) # cpy, n'))
      else (case deepCopy n x of (x', n1) \<Rightarrow>
              (case deepCopyFields n1 rest of (cpy, n2) \<Rightarrow> ((f, x') # cpy, n2))))"
  by pat_completeness auto
termination
  by (relation "measure (case_sum (case_sum (\<lambda>(n, v). size v) (\<lambda>(n, xs). size_list size xs)) (case_sum (\<lambda>(n, entries, cpy). size_list (size_prod size size) entries) (\<lambda>(n, fs). size_list (size_prod (\<lambda>f. 0) size) fs)))") auto

text \<open>\<open>DeepCopy\<close> of an interface value: nil for nil.\<close>

definition DeepCopy :: "nat \<Rightarrow> ref_value option \<Rightarrow> ref_value option \<times> nat" where
  "DeepCopy n v =
     (case v of
        None \<Rightarrow> (None, n)
      | Some val \<Rightarrow> (case deepCopy n val of (cpy, n') \<Rightarrow> (Some cpy, n')))"



section \<open>Properties of the attribute-tree deep merge\<close>

lemma mergeSetAttribute_map_of:
  "map_of (mergeSetAttribute ex k v) key = (if key = k then map_of (mergeSetAttribute ex k v) k else map_of ex key)"
  by (auto simp: mergeSetAttribute_def update_conv' split: attr_value.splits)

lemma mergePlanAndStateMap_step_other:
  "key \<noteq> k \<Longrightarrow>
   map_of (if IsNull planVal \<or> IsUnknown planVal then existingAttrs
        else if isObjectType (Type planVal) then mergeObjectAttribute existingAttrs k planVal
        else if isMapType (Type planVal) then mergeMapAttribute existingAttrs k planVal
        else if isListType (Type planVal) then mergeListAttribute existingAttrs k planVal
        else if isSetType (Type planVal) then mergeSetAttribute existingAttrs k planVal
        else AList.update k planVal existingAttrs) key = map_of existingAttrs key"
  using mergeSetAttribute_map_of[of existingAttrs k planVal key]
  by (simp add: update_conv')

lemma mergePlanAndStateMap_untouched:
  "key \<notin> fst ` set attrsToMerge \<Longrightarrow>
   map_of (mergePlanAndStateMap existingAttrs attrsToMerge) key = map_of existingAttrs key"
proof (induction attrsToMerge arbitrary: existingAttrs)
  case Nil
  then show ?case by simp
next
  case (Cons a rest)
  obtain k planVal where a: "a = (k, planVal)" by (cases a)
  from Cons.prems a have ne: "key \<noteq> k" and nin: "key \<notin> fst ` set rest" by auto
  show ?case
    unfolding a mergePlanAndStateMap.simps
    by (subst Cons.IH[OF nin]) (rule mergePlanAndStateMap_step_other[OF ne])
qed

text \<open>
  C4: in \<open>mergePlanAndStateMap\<close>, an incoming attribute whose value is Null or Unknown is
  skipped: whatever the existing attributes hold under its key (a value, or nothing) is
  what the merged attributes hold under it.
\<close>

theorem merge_skips_null_unknown:
  assumes "distinct (map fst attrsToMerge)"
    and "map_of attrsToMerge key = Some planVal"
    and "IsNull planVal \<or> IsUnknown planVal"
  shows "map_of (mergePlanAndStateMap existingAttrs attrsToMerge) key = map_of existingAttrs key"
  using assms
proof (induction attrsToMerge arbitrary: existingAttrs)
  case Nil
  then show ?case by simp
next
  case (Cons a rest)
  obtain k v where a: "a = (k, v)" by (cases a)
  show ?case
  proof (cases "k = key")
    case True
    with Cons.prems a have v: "v = planVal" and nin: "key \<notin> fst ` set rest" by auto
    show ?thesis
      unfolding a mergePlanAndStateMap.simps True v
      using Cons.prems(3) by (simp add: mergePlanAndStateMap_untouched[OF nin])
  next
    case False
    with Cons.prems a have d: "distinct (map fst rest)" and m: "map_of rest key = Some planVal"
      by auto
    have ne: "key \<noteq> k" using False by simp
    show ?thesis
      unfolding a mergePlanAndStateMap.simps
      by (subst Cons.IH[OF d m Cons.prems(3)]) (rule mergePlanAndStateMap_step_other[OF ne])
  qed
qed

theorem merge_skips_null_unknown_witness:
  "distinct (map fst [(''name'', StringValue ValueStateNull []), (''count'', Int64Value ValueStateKnown 20)])
   \<and> map_of [(''name'', StringValue ValueStateNull []), (''count'', Int64Value ValueStateKnown 20)] ''name''
       = Some (StringValue ValueStateNull [])
   \<and> (IsNull (StringValue ValueStateNull []) \<or> IsUnknown (StringValue ValueStateNull []))
   \<and> map_of (mergePlanAndStateMap
         [(''name'', StringValue ValueStateKnown ''existing''), (''count'', Int64Value ValueStateKnown 10)]
         [(''name'', StringValue ValueStateNull []), (''count'', Int64Value ValueStateKnown 20)]) ''name''
       = Some (StringValue ValueStateKnown ''existing'')"
  using merge_skips_null_unknown[of
      "[(''name'', StringValue ValueStateNull []), (''count'', Int64Value ValueStateKnown 20)]"
      "''name''" "StringValue ValueStateNull []"
      "[(''name'', StringValue ValueStateKnown ''existing''), (''count'', Int64Value ValueStateKnown 10)]"]
  by simp


lemma mergePlanAndStateMap_single_local:
  "map_of ex1 key = map_of ex2 key \<Longrightarrow>
   map_of (mergePlanAndStateMap ex1 [(key, planVal)]) key =
   map_of (mergePlanAndStateMap ex2 [(key, planVal)]) key"
  by (simp add: update_conv' mergeSetAttribute_def split: attr_value.splits)

lemma mergePlanAndStateMap_at_key:
  assumes "distinct (map fst attrsToMerge)"
    and "map_of attrsToMerge key = Some planVal"
  shows "map_of (mergePlanAndStateMap existingAttrs attrsToMerge) key =
         map_of (mergePlanAndStateMap existingAttrs [(key, planVal)]) key"
  using assms
proof (induction attrsToMerge arbitrary: existingAttrs)
  case Nil
  then show ?case by simp
next
  case (Cons a rest)
  obtain k v where a: "a = (k, v)" by (cases a)
  show ?case
  proof (cases "k = key")
    case True
    with Cons.prems a have v: "v = planVal" and nin: "key \<notin> fst ` set rest" by auto
    show ?thesis
      unfolding a True v mergePlanAndStateMap.simps
      by (rule mergePlanAndStateMap_untouched[OF nin])
  next
    case False
    with Cons.prems a have d: "distinct (map fst rest)" and m: "map_of rest key = Some planVal"
      by auto
    have ne: "key \<noteq> k" using False by simp
    show ?thesis
      unfolding a mergePlanAndStateMap.simps(2)[of existingAttrs k v rest]
      by (subst Cons.IH[OF d m])
         (rule mergePlanAndStateMap_single_local, rule mergePlanAndStateMap_step_other[OF ne])
  qed
qed

lemma Type_NewObjectValue: "Type (NewObjectValue attributeTypes attributes) = ObjectType attributeTypes"
  by (simp add: NewObjectValue_def)

lemma length_mergeListElements:
  "length (mergeListElements existingElems i planElems) = length planElems"
  by (induction planElems arbitrary: i) simp_all

lemma nth_mergeListElements_null:
  "j < length planElems \<Longrightarrow> IsNull (planElems ! j) \<or> IsUnknown (planElems ! j) \<Longrightarrow>
   i + j < length existingElems \<Longrightarrow>
   mergeListElements existingElems i planElems ! j = existingElems ! (i + j)"
proof (induction planElems arbitrary: i j)
  case Nil
  then show ?case by simp
next
  case (Cons p rest)
  show ?case
  proof (cases j)
    case 0
    with Cons.prems show ?thesis by simp
  next
    case (Suc j')
    with Cons.prems have "mergeListElements existingElems (Suc i) rest ! j' = existingElems ! (Suc i + j')"
      by (intro Cons.IH) auto
    with Suc show ?thesis by simp
  qed
qed

lemma typed_mergeListElements:
  "list_all (\<lambda>e. TypeEqual T (Type e)) planElems \<Longrightarrow>
   list_all (\<lambda>e. TypeEqual T (Type e)) existingElems \<Longrightarrow>
   list_all (\<lambda>e. TypeEqual T (Type e)) (mergeListElements existingElems i planElems)"
proof (induction planElems arbitrary: i)
  case Nil
  then show ?case by simp
next
  case (Cons p rest)
  have ex: "i < length existingElems \<Longrightarrow> TypeEqual T (Type (existingElems ! i))"
    using Cons.prems(2) by (simp add: list_all_length)
  have p: "TypeEqual T (Type p)" and rest: "list_all (\<lambda>e. TypeEqual T (Type e)) rest"
    using Cons.prems(1) by simp_all
  have tl: "list_all (\<lambda>e. TypeEqual T (Type e)) (mergeListElements existingElems (Suc i) rest)"
    by (rule Cons.IH[OF rest Cons.prems(2)])
  have hd: "TypeEqual T (Type (hd (mergeListElements existingElems i (p # rest))))"
    using p ex
    by (cases "i < length existingElems")
       (auto simp: Type_NewObjectValue split: attr_value.splits)
  from hd tl show ?case by simp
qed

lemma mergeMapElements_step_other:
  "k \<noteq> k' \<Longrightarrow>
   map_of (if IsNull v \<or> IsUnknown v then m else AList.update k' X m) k = map_of m k"
  by (simp add: update_conv')

lemma mergeMapElements_untouched:
  "k \<notin> fst ` set planElements \<Longrightarrow>
   map_of (mergeMapElements mergedMapValues planElements) k = map_of mergedMapValues k"
proof (induction planElements arbitrary: mergedMapValues)
  case Nil
  then show ?case by simp
next
  case (Cons a rest)
  obtain k' v where a: "a = (k', v)" by (cases a)
  from Cons.prems a have ne: "k \<noteq> k'" and nin: "k \<notin> fst ` set rest" by auto
  show ?case
    unfolding a mergeMapElements.simps
    by (subst Cons.IH[OF nin]) (rule mergeMapElements_step_other[OF ne])
qed

lemma mergeMapElements_absent:
  "map_of planElements k = None \<Longrightarrow>
   map_of (mergeMapElements mergedMapValues planElements) k = map_of mergedMapValues k"
  by (rule mergeMapElements_untouched) (simp add: map_of_eq_None_iff)

lemma mergeMapElements_present:
  assumes "distinct (map fst planElements)"
    and "map_of planElements k = Some planMapVal"
  shows "map_of (mergeMapElements mergedMapValues planElements) k =
         map_of (mergeMapElements mergedMapValues [(k, planMapVal)]) k"
  using assms
proof (induction planElements arbitrary: mergedMapValues)
  case Nil
  then show ?case by simp
next
  case (Cons a rest)
  obtain k' v where a: "a = (k', v)" by (cases a)
  show ?case
  proof (cases "k' = k")
    case True
    with Cons.prems a have v: "v = planMapVal" and nin: "k \<notin> fst ` set rest" by auto
    show ?thesis
      unfolding a True v mergeMapElements.simps
      by (rule mergeMapElements_untouched[OF nin])
  next
    case False
    with Cons.prems a have d: "distinct (map fst rest)" and m: "map_of rest k = Some planMapVal"
      by auto
    have ne: "k \<noteq> k'" using False by simp
    have same: "map_of (if IsNull v \<or> IsUnknown v then mergedMapValues
                        else AList.update k' X mergedMapValues) k = map_of mergedMapValues k" for X
      by (rule mergeMapElements_step_other[OF ne])
    show ?thesis
      unfolding a mergeMapElements.simps(2)[of mergedMapValues k' v rest]
      by (subst Cons.IH[OF d m]) (simp add: update_conv' same)
  qed
qed

lemma list_all_AList_update:
  "P (k, v) \<Longrightarrow> list_all P al \<Longrightarrow> list_all P (AList.update k v al)"
  by (induction al) auto

lemma typed_mergeMapElements:
  "list_all (\<lambda>(k, e). TypeEqual T (Type e)) planElements \<Longrightarrow>
   list_all (\<lambda>(k, e). TypeEqual T (Type e)) mergedMapValues \<Longrightarrow>
   list_all (\<lambda>(k, e). TypeEqual T (Type e)) (mergeMapElements mergedMapValues planElements)"
proof (induction planElements arbitrary: mergedMapValues)
  case Nil
  then show ?case by simp
next
  case (Cons a rest)
  obtain k v where a: "a = (k, v)" by (cases a)
  from Cons.prems(1) a have v: "TypeEqual T (Type v)"
    and rest: "list_all (\<lambda>(k, e). TypeEqual T (Type e)) rest" by simp_all
  have ex: "map_of mergedMapValues k = Some e \<Longrightarrow> TypeEqual T (Type e)" for e
    using Cons.prems(2) by (auto simp: list_all_iff dest: map_of_SomeD)
  have step: "list_all (\<lambda>(k, e). TypeEqual T (Type e))
     (if IsNull v \<or> IsUnknown v then mergedMapValues
        else AList.update k
          (case map_of mergedMapValues k of
             None \<Rightarrow> v
           | Some existingMapVal \<Rightarrow>
               (case v of
                  ObjectValue planTypes planState planAttributes \<Rightarrow>
                    (case existingMapVal of
                       ObjectValue existingTypes existingState existingAttributes \<Rightarrow>
                         NewObjectValue existingTypes
                           (mergePlanAndStateMap existingAttributes planAttributes)
                     | _ \<Rightarrow> v)
                | _ \<Rightarrow> v))
          mergedMapValues)"
    using v ex Cons.prems(2)
    by (auto intro!: list_all_AList_update simp: Type_NewObjectValue
             split: option.splits attr_value.splits)
  show ?case
    unfolding a mergeMapElements.simps
    by (rule Cons.IH[OF rest step])
qed

text \<open>
  C10: a List-typed incoming attribute whose element type is Object, merged into an
  existing known list (both lists holding elements of that element type), yields a known
  list of exactly the incoming list's length (existing elements at later indices are
  dropped), and an incoming Null or Unknown element at an index inside the existing list
  keeps the existing element of that index.
\<close>

theorem merge_list_of_objects:
  assumes "distinct (map fst attrsToMerge)"
    and "map_of attrsToMerge key = Some (ListValue elemType ValueStateKnown planElems)"
    and "isObjectType elemType"
    and "map_of existingAttrs key = Some (ListValue existingElemType ValueStateKnown existingElems)"
    and "list_all (\<lambda>e. TypeEqual elemType (Type e)) planElems"
    and "list_all (\<lambda>e. TypeEqual elemType (Type e)) existingElems"
  shows "map_of (mergePlanAndStateMap existingAttrs attrsToMerge) key =
           Some (ListValue elemType ValueStateKnown (mergeListElements existingElems 0 planElems))
         \<and> length (mergeListElements existingElems 0 planElems) = length planElems
         \<and> (\<forall>i. i < length planElems \<and> i < length existingElems
                  \<and> (IsNull (planElems ! i) \<or> IsUnknown (planElems ! i))
               \<longrightarrow> mergeListElements existingElems 0 planElems ! i = existingElems ! i)"
proof -
  have typed: "list_all (\<lambda>e. TypeEqual elemType (Type e)) (mergeListElements existingElems 0 planElems)"
    by (rule typed_mergeListElements[OF assms(5) assms(6)])
  have "map_of (mergePlanAndStateMap existingAttrs attrsToMerge) key =
        map_of (mergePlanAndStateMap existingAttrs [(key, ListValue elemType ValueStateKnown planElems)]) key"
    by (rule mergePlanAndStateMap_at_key[OF assms(1) assms(2)])
  also have "\<dots> = Some (NewListValue elemType (mergeListElements existingElems 0 planElems))"
    using assms(3) assms(4) by (simp add: update_conv')
  also have "\<dots> = Some (ListValue elemType ValueStateKnown (mergeListElements existingElems 0 planElems))"
    using typed by (simp add: NewListValue_def)
  finally have res: "map_of (mergePlanAndStateMap existingAttrs attrsToMerge) key =
      Some (ListValue elemType ValueStateKnown (mergeListElements existingElems 0 planElems))" .
  have nth: "\<forall>i. i < length planElems \<and> i < length existingElems
                  \<and> (IsNull (planElems ! i) \<or> IsUnknown (planElems ! i))
               \<longrightarrow> mergeListElements existingElems 0 planElems ! i = existingElems ! i"
    using nth_mergeListElements_null[of _ planElems 0 existingElems] by simp
  from res nth show ?thesis by (simp add: length_mergeListElements)
qed




theorem merge_list_of_objects_witness:
  "distinct (map fst
      [(''disks'', ListValue (ObjectType [(''size'', Int64Type)]) ValueStateKnown
         [ObjectValue [(''size'', Int64Type)] ValueStateUnknown []])])
   \<and> isObjectType (ObjectType [(''size'', Int64Type)])
   \<and> map_of (mergePlanAndStateMap
         [(''disks'', ListValue (ObjectType [(''size'', Int64Type)]) ValueStateKnown
            [ObjectValue [(''size'', Int64Type)] ValueStateKnown [(''size'', Int64Value ValueStateKnown 10)],
             ObjectValue [(''size'', Int64Type)] ValueStateKnown [(''size'', Int64Value ValueStateKnown 20)]])]
         [(''disks'', ListValue (ObjectType [(''size'', Int64Type)]) ValueStateKnown
            [ObjectValue [(''size'', Int64Type)] ValueStateUnknown []])]) ''disks''
       = Some (ListValue (ObjectType [(''size'', Int64Type)]) ValueStateKnown
            [ObjectValue [(''size'', Int64Type)] ValueStateKnown [(''size'', Int64Value ValueStateKnown 10)]])"
  using merge_list_of_objects[of
      "[(''disks'', ListValue (ObjectType [(''size'', Int64Type)]) ValueStateKnown
         [ObjectValue [(''size'', Int64Type)] ValueStateUnknown []])]"
      "''disks''" "ObjectType [(''size'', Int64Type)]"
      "[ObjectValue [(''size'', Int64Type)] ValueStateUnknown []]"
      "[(''disks'', ListValue (ObjectType [(''size'', Int64Type)]) ValueStateKnown
            [ObjectValue [(''size'', Int64Type)] ValueStateKnown [(''size'', Int64Value ValueStateKnown 10)],
             ObjectValue [(''size'', Int64Type)] ValueStateKnown [(''size'', Int64Value ValueStateKnown 20)]])]"
      "ObjectType [(''size'', Int64Type)]"
      "[ObjectValue [(''size'', Int64Type)] ValueStateKnown [(''size'', Int64Value ValueStateKnown 10)],
        ObjectValue [(''size'', Int64Type)] ValueStateKnown [(''size'', Int64Value ValueStateKnown 20)]]"]
  by simp

text \<open>
  C5 (as amended): a Map-typed incoming attribute merged into an existing Map attribute.
  When the element type is not Object the incoming map replaces the existing one. When it
  is Object the merge is key by key: an existing key absent from the incoming map is
  retained; an incoming key whose value is Null or Unknown is skipped (the existing entry,
  or its absence, stays); an incoming key with another value that is absent from the
  existing map is added; and for a key present in both, the incoming object is merged
  recursively into the existing object.
\<close>

theorem merge_map_of_objects:
  assumes "distinct (map fst attrsToMerge)"
    and "map_of attrsToMerge key = Some (MapValue elemType ValueStateKnown planElements)"
    and "map_of existingAttrs key = Some (MapValue existingElemType existingState existingElements)"
    and "distinct (map fst planElements)"
  shows "(\<not> isObjectType elemType \<longrightarrow>
            map_of (mergePlanAndStateMap existingAttrs attrsToMerge) key =
              Some (MapValue elemType ValueStateKnown planElements))
       \<and> (isObjectType elemType \<longrightarrow>
            map_of (mergePlanAndStateMap existingAttrs attrsToMerge) key =
              Some (NewMapValue elemType (mergeMapElements existingElements planElements)))
       \<and> (list_all (\<lambda>(k, e). TypeEqual elemType (Type e)) planElements
            \<and> list_all (\<lambda>(k, e). TypeEqual elemType (Type e)) existingElements \<longrightarrow>
            NewMapValue elemType (mergeMapElements existingElements planElements) =
              MapValue elemType ValueStateKnown (mergeMapElements existingElements planElements))
       \<and> (\<forall>k. map_of (mergeMapElements existingElements planElements) k =
            (case map_of planElements k of
               None \<Rightarrow> map_of existingElements k
             | Some planMapVal \<Rightarrow>
                 if IsNull planMapVal \<or> IsUnknown planMapVal then map_of existingElements k
                 else (case map_of existingElements k of
                         None \<Rightarrow> Some planMapVal
                       | Some existingMapVal \<Rightarrow>
                           (case planMapVal of
                              ObjectValue planTypes planState planAttributes \<Rightarrow>
                                (case existingMapVal of
                                   ObjectValue existingTypes existingState' existingAttributes \<Rightarrow>
                                     Some (NewObjectValue existingTypes
                                             (mergePlanAndStateMap existingAttributes planAttributes))
                                 | _ \<Rightarrow> Some planMapVal)
                            | _ \<Rightarrow> Some planMapVal))))"
proof -
  have at: "map_of (mergePlanAndStateMap existingAttrs attrsToMerge) key =
        map_of (mergePlanAndStateMap existingAttrs [(key, MapValue elemType ValueStateKnown planElements)]) key"
    by (rule mergePlanAndStateMap_at_key[OF assms(1) assms(2)])
  have p1: "\<not> isObjectType elemType \<longrightarrow>
            map_of (mergePlanAndStateMap existingAttrs attrsToMerge) key =
              Some (MapValue elemType ValueStateKnown planElements)"
    unfolding at using assms(3) by (simp add: update_conv')
  have p2: "isObjectType elemType \<longrightarrow>
            map_of (mergePlanAndStateMap existingAttrs attrsToMerge) key =
              Some (NewMapValue elemType (mergeMapElements existingElements planElements))"
    unfolding at using assms(3) by (simp add: update_conv')
  have p3: "list_all (\<lambda>(k, e). TypeEqual elemType (Type e)) planElements
            \<and> list_all (\<lambda>(k, e). TypeEqual elemType (Type e)) existingElements \<longrightarrow>
            NewMapValue elemType (mergeMapElements existingElements planElements) =
              MapValue elemType ValueStateKnown (mergeMapElements existingElements planElements)"
    using typed_mergeMapElements[of elemType planElements existingElements]
    by (simp add: NewMapValue_def)
  have p4: "map_of (mergeMapElements existingElements planElements) k =
            (case map_of planElements k of
               None \<Rightarrow> map_of existingElements k
             | Some planMapVal \<Rightarrow>
                 if IsNull planMapVal \<or> IsUnknown planMapVal then map_of existingElements k
                 else (case map_of existingElements k of
                         None \<Rightarrow> Some planMapVal
                       | Some existingMapVal \<Rightarrow>
                           (case planMapVal of
                              ObjectValue planTypes planState planAttributes \<Rightarrow>
                                (case existingMapVal of
                                   ObjectValue existingTypes existingState' existingAttributes \<Rightarrow>
                                     Some (NewObjectValue existingTypes
                                             (mergePlanAndStateMap existingAttributes planAttributes))
                                 | _ \<Rightarrow> Some planMapVal)
                            | _ \<Rightarrow> Some planMapVal)))" for k
  proof (cases "map_of planElements k")
    case None
    then show ?thesis by (simp add: mergeMapElements_absent)
  next
    case (Some planMapVal)
    show ?thesis
      unfolding mergeMapElements_present[OF assms(4) Some] Some
      by (simp add: update_conv' split: option.splits attr_value.splits)
  qed
  from p1 p2 p3 p4 show ?thesis by blast
qed

text \<open>
  The scenario of the specification: existing \<open>{k1: {status: running}}\<close> merged with incoming
  \<open>{k1: {status: stopped}, k2: {status: running}}\<close>.
\<close>

theorem merge_map_of_objects_witness:
  "distinct (map fst
      [(''instances'', MapValue (ObjectType [(''status'', StringType)]) ValueStateKnown
            [(''k1'', ObjectValue [(''status'', StringType)] ValueStateKnown [(''status'', StringValue ValueStateKnown ''stopped'')]),
             (''k2'', ObjectValue [(''status'', StringType)] ValueStateKnown [(''status'', StringValue ValueStateKnown ''running'')])])])
   \<and> distinct (map fst
      [(''k1'', ObjectValue [(''status'', StringType)] ValueStateKnown [(''status'', StringValue ValueStateKnown ''stopped'')]),
             (''k2'', ObjectValue [(''status'', StringType)] ValueStateKnown [(''status'', StringValue ValueStateKnown ''running'')])])
   \<and> isObjectType (ObjectType [(''status'', StringType)])
   \<and> map_of (mergePlanAndStateMap
         [(''instances'', MapValue (ObjectType [(''status'', StringType)]) ValueStateKnown
            [(''k1'', ObjectValue [(''status'', StringType)] ValueStateKnown [(''status'', StringValue ValueStateKnown ''running'')])])]
         [(''instances'', MapValue (ObjectType [(''status'', StringType)]) ValueStateKnown
            [(''k1'', ObjectValue [(''status'', StringType)] ValueStateKnown [(''status'', StringValue ValueStateKnown ''stopped'')]),
             (''k2'', ObjectValue [(''status'', StringType)] ValueStateKnown [(''status'', StringValue ValueStateKnown ''running'')])])]) ''instances''
       = Some (MapValue (ObjectType [(''status'', StringType)]) ValueStateKnown
            [(''k1'', ObjectValue [(''status'', StringType)] ValueStateKnown [(''status'', StringValue ValueStateKnown ''stopped'')]),
             (''k2'', ObjectValue [(''status'', StringType)] ValueStateKnown [(''status'', StringValue ValueStateKnown ''running'')])])"
  using merge_map_of_objects[of
      "[(''instances'', MapValue (ObjectType [(''status'', StringType)]) ValueStateKnown
            [(''k1'', ObjectValue [(''status'', StringType)] ValueStateKnown [(''status'', StringValue ValueStateKnown ''stopped'')]),
             (''k2'', ObjectValue [(''status'', StringType)] ValueStateKnown [(''status'', StringValue ValueStateKnown ''running'')])])]"
      "''instances''" "ObjectType [(''status'', StringType)]"
      "[(''k1'', ObjectValue [(''status'', StringType)] ValueStateKnown [(''status'', StringValue ValueStateKnown ''stopped'')]),
             (''k2'', ObjectValue [(''status'', StringType)] ValueStateKnown [(''status'', StringValue ValueStateKnown ''running'')])]"
      "[(''instances'', MapValue (ObjectType [(''status'', StringType)]) ValueStateKnown
            [(''k1'', ObjectValue [(''status'', StringType)] ValueStateKnown [(''status'', StringValue ValueStateKnown ''running'')])])]"
      "ObjectType [(''status'', StringType)]" ValueStateKnown
      "[(''k1'', ObjectValue [(''status'', StringType)] ValueStateKnown [(''status'', StringValue ValueStateKnown ''running'')])]"]
  by (simp add: NewMapValue_def NewObjectValue_def)

text \<open>
  C5 as stated fails: an incoming key that is absent from the existing map is not added
  when its value is Null.
\<close>

theorem merge_map_null_element_not_added_counterexample:
  "map_of [(''k2'', ObjectValue [(''status'', StringType)] ValueStateNull [])] ''k2'' \<noteq> None
   \<and> map_of [(''k1'', ObjectValue [(''status'', StringType)] ValueStateKnown [(''status'', StringValue ValueStateKnown ''running'')])] ''k2'' = None
   \<and> map_of (mergePlanAndStateMap
         [(''instances'', MapValue (ObjectType [(''status'', StringType)]) ValueStateKnown
            [(''k1'', ObjectValue [(''status'', StringType)] ValueStateKnown [(''status'', StringValue ValueStateKnown ''running'')])])]
         [(''instances'', MapValue (ObjectType [(''status'', StringType)]) ValueStateKnown
            [(''k2'', ObjectValue [(''status'', StringType)] ValueStateNull [])])]) ''instances''
       = Some (MapValue (ObjectType [(''status'', StringType)]) ValueStateKnown
            [(''k1'', ObjectValue [(''status'', StringType)] ValueStateKnown [(''status'', StringValue ValueStateKnown ''running'')])])"
  by (simp add: NewMapValue_def)

section \<open>Properties of the immutability guard\<close>





section \<open>Properties of decode\<close>

lemma objectToMapStore_other:
  "key \<noteq> k \<Longrightarrow> map_of (objectToMapStore prototype k goVal result) key = map_of result key"
  by (simp add: objectToMapStore_def update_conv' split: option.splits go_value.splits)

lemma objectToMapStore_local:
  "map_of r1 key = map_of r2 key \<Longrightarrow>
   map_of (objectToMapStore prototype key goVal r1) key =
   map_of (objectToMapStore prototype key goVal r2) key"
  by (simp add: objectToMapStore_def update_conv' split: option.splits go_value.splits)

lemma objectToMapLoop_step_other:
  assumes "key \<noteq> k"
    and "(if IsNull val then Inr (AList.update k (VInterface None) result)
          else if IsUnknown val then Inr result
          else (case attrToInterface unmarshal k val prototype of
                  Inl err \<Rightarrow> Inl (Wrapped (''error converting attribute '' @ k) err)
                | Inr goVal \<Rightarrow> Inr (objectToMapStore prototype k goVal result))) = Inr result'"
  shows "map_of result' key = map_of result key"
  using assms
  by (auto simp: update_conv' objectToMapStore_other split: if_splits sum.splits)

lemma objectToMapLoop_untouched:
  "key \<notin> fst ` set attributes \<Longrightarrow>
   objectToMapLoop unmarshal attributes prototype acc = Inr result \<Longrightarrow>
   map_of result key = map_of acc key"
proof (induction attributes arbitrary: acc)
  case Nil
  then show ?case by simp
next
  case (Cons a rest)
  obtain k val where a: "a = (k, val)" by (cases a)
  from Cons.prems(1) a have ne: "key \<noteq> k" and nin: "key \<notin> fst ` set rest" by auto
  from Cons.prems(2) obtain acc' where
    step: "(if IsNull val then Inr (AList.update k (VInterface None) acc)
          else if IsUnknown val then Inr acc
          else (case attrToInterface unmarshal k val prototype of
                  Inl err \<Rightarrow> Inl (Wrapped (''error converting attribute '' @ k) err)
                | Inr goVal \<Rightarrow> Inr (objectToMapStore prototype k goVal acc))) = Inr acc'"
    and rest: "objectToMapLoop unmarshal rest prototype acc' = Inr result"
    unfolding a objectToMapLoop.simps by (auto split: sum.splits)
  have "map_of result key = map_of acc' key" by (rule Cons.IH[OF nin rest])
  also have "\<dots> = map_of acc key" by (rule objectToMapLoop_step_other[OF ne step])
  finally show ?case .
qed

lemma objectToMapLoop_at_key:
  assumes "distinct (map fst attributes)"
    and "map_of attributes key = Some val"
    and "\<not> IsNull val" and "\<not> IsUnknown val"
    and "attrToInterface unmarshal key val prototype = Inr goVal"
    and "objectToMapLoop unmarshal attributes prototype acc = Inr result"
  shows "map_of result key = map_of (objectToMapStore prototype key goVal acc) key"
  using assms(1,2,6)
proof (induction attributes arbitrary: acc)
  case Nil
  then show ?case by simp
next
  case (Cons a rest)
  obtain k v where a: "a = (k, v)" by (cases a)
  from Cons.prems(3) obtain acc' where
    step: "(if IsNull v then Inr (AList.update k (VInterface None) acc)
          else if IsUnknown v then Inr acc
          else (case attrToInterface unmarshal k v prototype of
                  Inl err \<Rightarrow> Inl (Wrapped (''error converting attribute '' @ k) err)
                | Inr goVal \<Rightarrow> Inr (objectToMapStore prototype k goVal acc))) = Inr acc'"
    and rest: "objectToMapLoop unmarshal rest prototype acc' = Inr result"
    unfolding a objectToMapLoop.simps by (auto split: sum.splits)
  show ?case
  proof (cases "k = key")
    case True
    with Cons.prems a have v: "v = val" and nin: "key \<notin> fst ` set rest" by auto
    from step have acc': "acc' = objectToMapStore prototype key goVal acc"
      unfolding True v using assms(3,4,5) by simp
    have "map_of result key = map_of acc' key" by (rule objectToMapLoop_untouched[OF nin rest])
    then show ?thesis by (simp add: acc')
  next
    case False
    with Cons.prems a have d: "distinct (map fst rest)" and m: "map_of rest key = Some val"
      by auto
    have ne: "key \<noteq> k" using False by simp
    have "map_of result key = map_of (objectToMapStore prototype key goVal acc') key"
      by (rule Cons.IH[OF d m rest])
    also have "\<dots> = map_of (objectToMapStore prototype key goVal acc) key"
      by (rule objectToMapStore_local) (rule objectToMapLoop_step_other[OF ne step])
    finally show ?thesis .
  qed
qed

text \<open>
  C3: when \<open>objectToMap\<close> succeeds and the field of an attribute is not a pointer (or the
  prototype has no field for it), a known empty string, a known integer 0 and a known
  float 0 are left out of the intermediate mapping, a non-zero string or integer is
  carried, and a known boolean is carried whatever its value, \<open>False\<close> included.
\<close>

theorem decode_drops_zero_scalars:
  assumes "objectToMap unmarshal (ObjectValue attrTypes ValueStateKnown attributes) prototype = Inr result"
    and "distinct (map fst attributes)"
    and "map_of attributes key = Some val"
    and "case findFieldByName prototype key of
           None \<Rightarrow> True
         | Some actualField \<Rightarrow> KindOfType (FieldType actualField) \<noteq> Pointer"
  shows "(val = StringValue ValueStateKnown [] \<longrightarrow> map_of result key = None)
       \<and> (val = Int64Value ValueStateKnown 0 \<longrightarrow> map_of result key = None)
       \<and> (val = Float64Value ValueStateKnown 0 \<longrightarrow> map_of result key = None)
       \<and> (\<forall>s. val = StringValue ValueStateKnown s \<and> s \<noteq> [] \<longrightarrow> map_of result key = Some (VString s))
       \<and> (\<forall>n. val = Int64Value ValueStateKnown n \<and> n \<noteq> 0 \<longrightarrow> map_of result key = Some (VInt Int64 n))
       \<and> (\<forall>b. val = BoolValue ValueStateKnown b \<longrightarrow> map_of result key = Some (VBool b))"
proof -
  from assms(1) have loop: "objectToMapLoop unmarshal attributes prototype [] = Inr result"
    by (simp add: objectToMap.simps)
  have np: "\<not> (case findFieldByName prototype key of
                 None \<Rightarrow> False
               | Some actualField \<Rightarrow> KindOfType (FieldType actualField) = Pointer)"
    using assms(4) by (simp split: option.splits)
  have str: "map_of result key = map_of (objectToMapStore prototype key (VString s) []) key"
    if "val = StringValue ValueStateKnown s" for s
    using that by (intro objectToMapLoop_at_key[OF assms(2) assms(3) _ _ _ loop])
                  (simp_all add: attrToInterface.simps)
  have int: "map_of result key = map_of (objectToMapStore prototype key (VInt Int64 n) []) key"
    if "val = Int64Value ValueStateKnown n" for n
    using that by (intro objectToMapLoop_at_key[OF assms(2) assms(3) _ _ _ loop])
                  (simp_all add: attrToInterface.simps)
  have bool: "map_of result key = map_of (objectToMapStore prototype key (VBool b) []) key"
    if "val = BoolValue ValueStateKnown b" for b
    using that by (intro objectToMapLoop_at_key[OF assms(2) assms(3) _ _ _ loop])
                  (simp_all add: attrToInterface.simps)
  have flt: "map_of result key = map_of (objectToMapStore prototype key (VFloat Float64 w) []) key"
    if "val = Float64Value ValueStateKnown w" for w
    using that by (intro objectToMapLoop_at_key[OF assms(2) assms(3) _ _ _ loop])
                  (simp_all add: attrToInterface.simps)
  show ?thesis
    using str int bool flt np
    by (auto simp: objectToMapStore_def Kind_def)
qed


text \<open>
  The record \<open>{Name string; Count int64; On bool}\<close> decoded from \<open>name = ""\<close>,
  \<open>count = 0\<close>, \<open>on = false\<close>: only \<open>on\<close> reaches the mapping.
\<close>

theorem decode_drops_zero_scalars_witness:
  "objectToMap (\<lambda>s. Inl (Error ''json''))
     (ObjectValue [(''name'', StringType), (''count'', Int64Type), (''on'', BoolType)] ValueStateKnown
        [(''name'', StringValue ValueStateKnown []), (''count'', Int64Value ValueStateKnown 0),
      (''on'', BoolValue ValueStateKnown False)])
     (Some (TPointer (TStruct [StructField ''Name'' [] False [(''mapstructure'', ''name'')] (TBasic String),
        StructField ''Count'' [] False [(''mapstructure'', ''count'')] (TBasic Int64),
        StructField ''On'' [] False [(''mapstructure'', ''on'')] (TBasic Bool)])))
   = Inr [(''on'', VBool False)]
   \<and> distinct (map fst [(''name'', StringValue ValueStateKnown []), (''count'', Int64Value ValueStateKnown 0),
      (''on'', BoolValue ValueStateKnown False)])
   \<and> findFieldByName (Some (TPointer (TStruct [StructField ''Name'' [] False [(''mapstructure'', ''name'')] (TBasic String),
        StructField ''Count'' [] False [(''mapstructure'', ''count'')] (TBasic Int64),
        StructField ''On'' [] False [(''mapstructure'', ''on'')] (TBasic Bool)]))) ''name''
       = Some (StructField ''Name'' [] False [(''mapstructure'', ''name'')] (TBasic String))
   \<and> map_of [(''on'', VBool False)] ''name'' = None"
  using decode_drops_zero_scalars[of "\<lambda>s. Inl (Error ''json'')"
      "[(''name'', StringType), (''count'', Int64Type), (''on'', BoolType)]"
      "[(''name'', StringValue ValueStateKnown []), (''count'', Int64Value ValueStateKnown 0),
      (''on'', BoolValue ValueStateKnown False)]"
      "(Some (TPointer (TStruct [StructField ''Name'' [] False [(''mapstructure'', ''name'')] (TBasic String),
        StructField ''Count'' [] False [(''mapstructure'', ''count'')] (TBasic Int64),
        StructField ''On'' [] False [(''mapstructure'', ''on'')] (TBasic Bool)])))"
      "[(''on'', VBool False)]" "''name''" "StringValue ValueStateKnown []"]
  by (simp add: objectToMap.simps attrToInterface.simps findFieldByName.simps
        objectToMapStore_def Kind_def TagGet_def beforeComma_def)

section \<open>Properties of encode\<close>











section \<open>Properties of schema derivation\<close>









section \<open>Properties of reconcile\<close>




















section \<open>Properties of deep copy\<close>















end
